theory Spec2Isabelle
  imports Complex_Main
begin

section \<open>JavaScript numbers\<close>

text \<open>
  The scripts compute with JavaScript numbers. A finite number is modelled by the exact
  real number it stands for (the rounding error of IEEE doubles and the sign of zero are
  not modelled); the three non-finite values that a division can produce are kept, since
  JavaScript does not throw on a division by zero.
\<close>

datatype jsnum = Fin real | PosInf | NegInf | NaN

text \<open>\<^verbatim>\<open>a / b\<close> for finite \<^verbatim>\<open>a\<close> and \<^verbatim>\<open>b\<close>.\<close>

definition js_div :: "real \<Rightarrow> real \<Rightarrow> jsnum" where
  "js_div a b =
     (if b = 0 then (if a = 0 then NaN else if 0 < a then PosInf else NegInf)
      else Fin (a / b))"

text \<open>\<^verbatim>\<open>x * c\<close> for a finite \<^verbatim>\<open>c\<close>.\<close>

fun js_times :: "jsnum \<Rightarrow> real \<Rightarrow> jsnum" where
  "js_times (Fin x) c = Fin (x * c)"
| "js_times PosInf c = (if 0 < c then PosInf else if c < 0 then NegInf else NaN)"
| "js_times NegInf c = (if 0 < c then NegInf else if c < 0 then PosInf else NaN)"
| "js_times NaN c = NaN"

text \<open>The expression \<^verbatim>\<open>a / b * 100\<close>.\<close>

definition js_pct :: "real \<Rightarrow> real \<Rightarrow> jsnum" where
  "js_pct a b = js_times (js_div a b) 100"

text \<open>
  \<^verbatim>\<open>x.toFixed(d)\<close> read back as a number (\<^verbatim>\<open>parseFloat\<close>, or the implicit
  conversion of \<^verbatim>\<open>Math.abs\<close>): of the two nearest multiples of \<open>10\<^sup>-\<^sup>d\<close> the one
  further from zero wins a tie; from \<open>10\<^sup>2\<^sup>1\<close> on the number is printed unrounded;
  \<^verbatim>\<open>Infinity\<close> and \<^verbatim>\<open>NaN\<close> are printed and read back as themselves.
\<close>

definition toFixed_num :: "nat \<Rightarrow> real \<Rightarrow> real" where
  "toFixed_num d x =
     (if 10 ^ 21 \<le> \<bar>x\<bar> then x
      else sgn x * of_int \<lfloor>\<bar>x\<bar> * 10 ^ d + 1 / 2\<rfloor> / 10 ^ d)"

fun toFixed :: "nat \<Rightarrow> jsnum \<Rightarrow> jsnum" where
  "toFixed d (Fin x) = Fin (toFixed_num d x)"
| "toFixed d y = y"

fun js_abs :: "jsnum \<Rightarrow> jsnum" where
  "js_abs (Fin x) = Fin \<bar>x\<bar>"
| "js_abs PosInf = PosInf"
| "js_abs NegInf = PosInf"
| "js_abs NaN = NaN"

text \<open>\<^verbatim>\<open>x > c\<close> and \<^verbatim>\<open>x < c\<close> against a finite constant; every comparison with \<^verbatim>\<open>NaN\<close> is false.\<close>

fun js_gt :: "jsnum \<Rightarrow> real \<Rightarrow> bool" where
  "js_gt (Fin x) c = (c < x)"
| "js_gt PosInf c = True"
| "js_gt NegInf c = False"
| "js_gt NaN c = False"

fun js_lt :: "jsnum \<Rightarrow> real \<Rightarrow> bool" where
  "js_lt (Fin x) c = (x < c)"
| "js_lt PosInf c = False"
| "js_lt NegInf c = True"
| "js_lt NaN c = False"

text \<open>
  \<^verbatim>\<open>a || b\<close> where \<^verbatim>\<open>a\<close> is a number that may be missing: \<^verbatim>\<open>undefined\<close>,
  \<^verbatim>\<open>null\<close> and \<^verbatim>\<open>0\<close> are falsy.
\<close>

fun js_or :: "real option \<Rightarrow> real \<Rightarrow> real" where
  "js_or None b = b"
| "js_or (Some a) b = (if a = 0 then b else a)"

text \<open>\<^verbatim>\<open>Math.max(...xs, x)\<close> and \<^verbatim>\<open>Math.min(...xs, x)\<close> on finite numbers.\<close>

definition math_max :: "real list \<Rightarrow> real \<Rightarrow> real" where
  "math_max xs x = fold max xs x"

definition math_min :: "real list \<Rightarrow> real \<Rightarrow> real" where
  "math_min xs x = fold min xs x"

section \<open>The data of a result\<close>

datatype severity = NORMAL | MODERATE | HIGH | CRITICAL

datatype pattern = PATTERN_NORMAL | GAP_DOWN | DISTRIBUTION

datatype confidence_level = CONF_LOW | CONF_MEDIUM | CONF_HIGH

datatype tag = T1 | T2 | T3 | T4

record weight =
  longTerm :: real
  shortTerm :: real
  blended :: real
  confidence :: confidence_level

text \<open>
  The summary of the two short scripts; the full runner's summary extends it.
  The time stamps \<^verbatim>\<open>runAt\<close> and \<^verbatim>\<open>generatedAt\<close> are left out.
\<close>

record simple_summary =
  tickersAnalyzed :: nat
  criticalDislocations :: nat
  highDislocations :: nat
  normal :: nat

section \<open>The script that uses real prices\<close>

text \<open>
  An entry of \<^verbatim>\<open>STOCK_DATA\<close> as the analysis loop finds it, that is after the live
  prices have been copied in: \<^verbatim>\<open>previousPrice\<close> is present only for a ticker with a
  live price.
\<close>

record stock_entry =
  price :: real
  previousPrice :: "real option"
  priceHistory :: "real list"

record metrics =
  currentPrice :: real
  todayReturn :: jsnum
  drawdownFromPeak :: jsnum
  zScore :: real
  volumeRatio :: real

record dislocation =
  severity :: severity
  metrics :: metrics
  pattern :: pattern

record inference =
  primaryHypothesis :: tag
  secondaryHypothesis :: "tag option"
  contradictedHypothesis :: "tag option"
  inferenceConfidence :: real

record analysis =
  ticker :: string
  dislocation :: dislocation
  weights :: "tag \<Rightarrow> weight"
  inference :: inference

text \<open>\<^verbatim>\<open>change\<close> and \<^verbatim>\<open>drawdown\<close>, as the numbers that \<^verbatim>\<open>parseFloat\<close> reads from them.\<close>

definition change_pct :: "real \<Rightarrow> real \<Rightarrow> jsnum" where
  "change_pct cp pp = toFixed 2 (js_pct (cp - pp) pp)"

definition drawdown_pct :: "real \<Rightarrow> real \<Rightarrow> jsnum" where
  "drawdown_pct cp peak = toFixed 1 (js_pct (cp - peak) peak)"

text \<open>The detection of a dislocation: the severity and the counter it bumps.\<close>

definition detect ::
  "jsnum \<Rightarrow> jsnum \<Rightarrow> 'a simple_summary_scheme \<Rightarrow> severity \<times> 'a simple_summary_scheme" where
  "detect change drawdown summary =
     (if js_gt (js_abs change) 8 \<or> js_lt drawdown (- 40) then
        (CRITICAL, summary\<lparr>criticalDislocations := criticalDislocations summary + 1\<rparr>)
      else if js_gt (js_abs change) 5 \<or> js_lt drawdown (- 25) then
        (HIGH, summary\<lparr>highDislocations := highDislocations summary + 1\<rparr>)
      else
        (NORMAL, summary\<lparr>normal := normal summary + 1\<rparr>))"

fun real_weights :: "severity \<Rightarrow> tag \<Rightarrow> weight" where
  "real_weights sev T1 =
     \<lparr>longTerm = 60, shortTerm = (if sev = CRITICAL then 40 else 55),
      blended = (if sev = CRITICAL then 52 else 58), confidence = CONF_MEDIUM\<rparr>"
| "real_weights sev T2 =
     \<lparr>longTerm = 35, shortTerm = (if sev = CRITICAL then 75 else 40),
      blended = (if sev = CRITICAL then 51 else 37),
      confidence = (if sev = CRITICAL then CONF_HIGH else CONF_MEDIUM)\<rparr>"
| "real_weights sev T3 =
     \<lparr>longTerm = 20, shortTerm = (if sev = CRITICAL then 65 else 25),
      blended = (if sev = CRITICAL then 38 else 22),
      confidence = (if sev = CRITICAL then CONF_HIGH else CONF_MEDIUM)\<rparr>"
| "real_weights sev T4 =
     \<lparr>longTerm = 50, shortTerm = (if sev = CRITICAL then 15 else 45),
      blended = (if sev = CRITICAL then 36 else 48),
      confidence = (if sev = CRITICAL then CONF_LOW else CONF_MEDIUM)\<rparr>"

text \<open>
  The body of the loop from the computation of \<^verbatim>\<open>change\<close> on, with the three prices it
  works on as arguments.
\<close>

definition classify ::
  "string \<Rightarrow> real \<Rightarrow> real \<Rightarrow> real \<Rightarrow> 'a simple_summary_scheme
     \<Rightarrow> analysis \<times> 'a simple_summary_scheme" where
  "classify tk cp pp peak summary =
     (let change = change_pct cp pp;
          drawdown = drawdown_pct cp peak;
          (sev, summary') = detect change drawdown summary
      in (\<lparr>ticker = tk,
           dislocation =
             \<lparr>severity = sev,
              metrics =
                \<lparr>currentPrice = cp, todayReturn = change, drawdownFromPeak = drawdown,
                 zScore = (if sev = CRITICAL then - 5 / 2 else - 1 / 2),
                 volumeRatio = (if sev = CRITICAL then 11 / 5 else 1)\<rparr>,
              pattern = (if sev = CRITICAL then DISTRIBUTION else PATTERN_NORMAL)\<rparr>,
           weights = real_weights sev,
           inference =
             \<lparr>primaryHypothesis = (if sev = CRITICAL then T2 else T1),
              secondaryHypothesis = (if sev = CRITICAL then Some T3 else None),
              contradictedHypothesis = (if sev = CRITICAL then Some T4 else None),
              inferenceConfidence = (if sev = CRITICAL then 17 / 20 else 3 / 5)\<rparr>\<rparr>,
          summary'))"

text \<open>One turn of the loop: the three prices are taken from the entry, then classified.\<close>

definition analyze_entry ::
  "string \<times> stock_entry \<Rightarrow> 'a simple_summary_scheme \<Rightarrow> analysis \<times> 'a simple_summary_scheme" where
  "analyze_entry e summary =
     (let data = snd e;
          cp = price data;
          pp = js_or (previousPrice data) (cp * (11 / 10));
          peak = math_max (priceHistory data) (cp * (5 / 2))
      in classify (fst e) cp pp peak summary)"

text \<open>
  The loop over \<^verbatim>\<open>Object.entries(STOCK_DATA)\<close>, threading \<^verbatim>\<open>results\<close> and
  \<^verbatim>\<open>summary\<close>.
\<close>

fun run_real ::
  "(string \<times> stock_entry) list \<Rightarrow> (string \<rightharpoonup> analysis) \<times> 'a simple_summary_scheme
     \<Rightarrow> (string \<rightharpoonup> analysis) \<times> 'a simple_summary_scheme" where
  "run_real [] st = st"
| "run_real (e # es) st =
     (let (a, summary') = analyze_entry e (snd st)
      in run_real es ((fst st)(fst e \<mapsto> a), summary'))"

definition initial_summary :: simple_summary where
  "initial_summary =
     \<lparr>tickersAnalyzed = 12, criticalDislocations = 0, highDislocations = 0, normal = 0\<rparr>"



section \<open>The script that simulates prices\<close>

text \<open>
  The values that the eight calls of \<^verbatim>\<open>Math.random()\<close> return in one turn of the loop,
  in the order of the calls; each lies in \<open>[0, 1)\<close>.
\<close>

record draws =
  r_current :: real
  r_previous :: real
  r_zScore :: real
  r_volumeRatio :: real
  r_T1 :: real
  r_T2 :: real
  r_T3 :: real
  r_T4 :: real

definition valid_draws :: "draws \<Rightarrow> bool" where
  "valid_draws r =
     list_all (\<lambda>x. 0 \<le> x \<and> x < 1)
       [r_current r, r_previous r, r_zScore r, r_volumeRatio r, r_T1 r, r_T2 r, r_T3 r, r_T4 r]"

text \<open>
  The objects of this script have fewer keys than those of the other one; their fields
  carry the prefix \<open>sim_\<close>. \<^verbatim>\<open>zScore\<close> and \<^verbatim>\<open>volumeRatio\<close> are strings printed by
  \<^verbatim>\<open>toFixed(2)\<close>, modelled by the numbers they print.
\<close>

record sim_metrics =
  sim_todayReturn :: jsnum
  sim_zScore :: real
  sim_volumeRatio :: real

record sim_dislocation =
  sim_severity :: severity
  sim_metrics :: sim_metrics
  sim_pattern :: pattern

record sim_inference =
  sim_primaryHypothesis :: tag
  sim_confidence :: real

record sim_analysis =
  sim_ticker :: string
  sim_dislocation :: sim_dislocation
  sim_weights :: "tag \<Rightarrow> weight"
  sim_inference :: sim_inference

definition sim_detect ::
  "jsnum \<Rightarrow> 'a simple_summary_scheme \<Rightarrow> severity \<times> 'a simple_summary_scheme" where
  "sim_detect change summary =
     (if js_gt (js_abs change) 8 then
        (CRITICAL, summary\<lparr>criticalDislocations := criticalDislocations summary + 1\<rparr>)
      else if js_gt (js_abs change) 5 then
        (HIGH, summary\<lparr>highDislocations := highDislocations summary + 1\<rparr>)
      else
        (NORMAL, summary\<lparr>normal := normal summary + 1\<rparr>))"

fun simulated_weights :: "draws \<Rightarrow> severity \<Rightarrow> tag \<Rightarrow> weight" where
  "simulated_weights r sev T1 =
     \<lparr>longTerm = 50, shortTerm = 45 + r_T1 r * 20, blended = 50, confidence = CONF_HIGH\<rparr>"
| "simulated_weights r sev T2 =
     \<lparr>longTerm = 30, shortTerm = 30 + r_T2 r * 30, blended = 40, confidence = CONF_MEDIUM\<rparr>"
| "simulated_weights r sev T3 =
     \<lparr>longTerm = 20, shortTerm = 20 + r_T3 r * 40, blended = 35,
      confidence = (if sev = CRITICAL then CONF_LOW else CONF_MEDIUM)\<rparr>"
| "simulated_weights r sev T4 =
     \<lparr>longTerm = 40, shortTerm = 30 + r_T4 r * 20, blended = 38, confidence = CONF_MEDIUM\<rparr>"

definition simulate ::
  "string \<Rightarrow> draws \<Rightarrow> 'a simple_summary_scheme \<Rightarrow> sim_analysis \<times> 'a simple_summary_scheme" where
  "simulate tk r summary =
     (let currentPrice = 100 + r_current r * 200;
          previousPrice = currentPrice * (1 + (r_previous r - 1 / 2) * (1 / 10));
          change = toFixed 2 (js_pct (currentPrice - previousPrice) previousPrice);
          (sev, summary') = sim_detect change summary
      in (\<lparr>sim_ticker = tk,
           sim_dislocation =
             \<lparr>sim_severity = sev,
              sim_metrics =
                \<lparr>sim_todayReturn = change,
                 sim_zScore = toFixed_num 2 (r_zScore r * 3),
                 sim_volumeRatio = toFixed_num 2 (1 + r_volumeRatio r * 2)\<rparr>,
              sim_pattern = (if js_gt (js_abs change) 5 then GAP_DOWN else PATTERN_NORMAL)\<rparr>,
           sim_weights = simulated_weights r sev,
           sim_inference =
             \<lparr>sim_primaryHypothesis = (if sev = CRITICAL then T2 else T1),
              sim_confidence = 3 / 4\<rparr>\<rparr>,
          summary'))"

section \<open>The full runner\<close>

text \<open>
  An entry of \<^verbatim>\<open>live-prices.json\<close> and an entry of \<^verbatim>\<open>STOCK_DATA\<close>: every key the
  runner reads may be missing. The fields carry a prefix, since the other scripts use the
  same keys.
\<close>

record live_price =
  live_p :: "real option"
  live_pc :: "real option"
  live_v :: "real option"

record stock_data =
  sd_price :: "real option"
  sd_priceHistory :: "real list option"

record price_data =
  pd_currentPrice :: real
  pd_previousPrice :: real
  pd_priceAtReview :: real
  pd_peakPrice :: real
  pd_low52Week :: real
  pd_high52Week :: real
  pd_todayVolume :: real
  pd_avgVolume20d :: real
  pd_historicalReturns :: "jsnum list"
  pd_consecutiveDownDays :: nat

text \<open>\<^verbatim>\<open>xs[xs.length - k]\<close>: \<^verbatim>\<open>undefined\<close> when the list is shorter than \<open>k\<close>.\<close>

definition from_end :: "real list \<Rightarrow> nat \<Rightarrow> real option" where
  "from_end xs k = (if 1 \<le> k \<and> k \<le> length xs then Some (xs ! (length xs - k)) else None)"

text \<open>\<^verbatim>\<open>livePrice?.p\<close> and its like: the key of an entry that may itself be missing.\<close>

definition opt_field :: "('a \<Rightarrow> 'b option) \<Rightarrow> 'a option \<Rightarrow> 'b option" where
  "opt_field f x = (case x of None \<Rightarrow> None | Some y \<Rightarrow> f y)"

text \<open>The day-on-day returns of the history.\<close>

fun returns_of :: "real list \<Rightarrow> jsnum list" where
  "returns_of (a # b # xs) = js_div (b - a) a # returns_of (b # xs)"
| "returns_of xs = []"

text \<open>
  The loop that counts the falls at the end of the history, on the history read from
  its end.
\<close>

fun count_down :: "real list \<Rightarrow> nat" where
  "count_down (a # b # xs) = (if a < b then Suc (count_down (b # xs)) else 0)"
| "count_down xs = 0"

definition buildPriceData ::
  "(string \<rightharpoonup> live_price) \<Rightarrow> string \<Rightarrow> stock_data \<Rightarrow> price_data" where
  "buildPriceData livePrices tk stockData =
     (let livePrice = livePrices tk;
          priceHistory = (case sd_priceHistory stockData of None \<Rightarrow> [] | Some h \<Rightarrow> h);
          currentPrice =
            js_or (opt_field live_p livePrice)
              (js_or (sd_price stockData) (js_or (from_end priceHistory 1) 100));
          previousPrice =
            js_or (opt_field live_pc livePrice) (js_or (from_end priceHistory 2) currentPrice);
          priceAtReview = js_or (sd_price stockData) currentPrice;
          peakPrice = math_max priceHistory currentPrice;
          low52Week = math_min priceHistory currentPrice;
          high52Week = peakPrice;
          returns = returns_of priceHistory;
          consecutiveDown = count_down (rev priceHistory)
      in \<lparr>pd_currentPrice = currentPrice,
          pd_previousPrice = previousPrice,
          pd_priceAtReview = priceAtReview,
          pd_peakPrice = peakPrice,
          pd_low52Week = low52Week,
          pd_high52Week = high52Week,
          pd_todayVolume = js_or (opt_field live_v livePrice) 1000000,
          pd_avgVolume20d =
            (case opt_field live_v livePrice of
               None \<Rightarrow> 800000
             | Some v \<Rightarrow> if v = 0 then 800000 else v / (3 / 2)),
          pd_historicalReturns = (if returns \<noteq> [] then returns else replicate 5 (Fin 0)),
          pd_consecutiveDownDays = consecutiveDown\<rparr>)"

text \<open>
  What \<^verbatim>\<open>PriceNarrativeEngine.analyze\<close> returns: the four parts of a result, the flag
  \<^verbatim>\<open>shouldUpdate\<close>, and the commentary that the runner may attach.
\<close>

record 'c engine_analysis = analysis +
  shouldUpdate :: bool
  institutionalCommentary :: "'c option"

text \<open>
  The two engines are other files of the repository; the runner is modelled for any
  engines. An engine is a function of its arguments that either returns or throws an
  exception with a message.
\<close>

record 'c engines =
  analyze :: "string \<Rightarrow> stock_data \<Rightarrow> price_data \<Rightarrow> string + 'c engine_analysis"
  generateReport ::
    "string \<Rightarrow> stock_data \<Rightarrow> price_data \<Rightarrow> (tag \<Rightarrow> weight) \<Rightarrow> dislocation \<Rightarrow> inference
       \<Rightarrow> string + 'c"

record summary = simple_summary +
  moderateDislocations :: nat
  errors :: "(string \<times> string) list"

definition SEVERITY_LEVELS :: "string \<rightharpoonup> nat" where
  "SEVERITY_LEVELS =
     [''NORMAL'' \<mapsto> 0, ''MODERATE'' \<mapsto> 1, ''HIGH'' \<mapsto> 2, ''CRITICAL'' \<mapsto> 3]"

fun severity_name :: "severity \<Rightarrow> string" where
  "severity_name NORMAL = ''NORMAL''"
| "severity_name MODERATE = ''MODERATE''"
| "severity_name HIGH = ''HIGH''"
| "severity_name CRITICAL = ''CRITICAL''"

text \<open>\<^verbatim>\<open>SEVERITY_LEVELS[THRESHOLD] || 1\<close>\<close>

definition thresholdLevel :: "string \<Rightarrow> nat" where
  "thresholdLevel THRESHOLD =
     (case SEVERITY_LEVELS THRESHOLD of None \<Rightarrow> 1 | Some n \<Rightarrow> if n = 0 then 1 else n)"

record 'c config =
  STOCK_DATA :: "string \<rightharpoonup> stock_data"
  livePrices :: "string \<rightharpoonup> live_price"
  THRESHOLD :: string
  engines :: "'c engines"

text \<open>The \<^verbatim>\<open>switch\<close> that updates the summary.\<close>

fun update_summary :: "severity \<Rightarrow> summary \<Rightarrow> summary" where
  "update_summary CRITICAL s = s\<lparr>criticalDislocations := criticalDislocations s + 1\<rparr>"
| "update_summary HIGH s = s\<lparr>highDislocations := highDislocations s + 1\<rparr>"
| "update_summary MODERATE s = s\<lparr>moderateDislocations := moderateDislocations s + 1\<rparr>"
| "update_summary NORMAL s = s\<lparr>normal := normal s + 1\<rparr>"

text \<open>
  How one turn of the loop ends: at the \<^verbatim>\<open>continue\<close> of a ticker without data, in
  the \<^verbatim>\<open>catch\<close> block with the message of the exception, or at the end of the
  \<^verbatim>\<open>try\<close> block with the analysis to store.
\<close>

datatype 'a outcome = NoData | Thrown string | Analysed 'a

definition try_ticker :: "'c config \<Rightarrow> string \<Rightarrow> 'c engine_analysis outcome" where
  "try_ticker cfg tk =
     (case STOCK_DATA cfg tk of
        None \<Rightarrow> NoData
      | Some stockData \<Rightarrow>
          (let priceData = buildPriceData (livePrices cfg) tk stockData
           in case analyze (engines cfg) tk stockData priceData of
                Inl msg \<Rightarrow> Thrown msg
              | Inr a \<Rightarrow>
                  if shouldUpdate a \<or>
                     (case SEVERITY_LEVELS (severity_name (severity (dislocation a))) of
                        None \<Rightarrow> False
                      | Some l \<Rightarrow> thresholdLevel (THRESHOLD cfg) \<le> l)
                  then
                    (case generateReport (engines cfg) tk stockData priceData
                            (weights a) (dislocation a) (inference a) of
                       Inl msg \<Rightarrow> Thrown msg
                     | Inr c \<Rightarrow> Analysed (a\<lparr>institutionalCommentary := Some c\<rparr>))
                  else Analysed a))"

text \<open>One turn of the loop on \<^verbatim>\<open>results\<close> and \<^verbatim>\<open>summary\<close>.\<close>

definition analyze_ticker ::
  "'c config \<Rightarrow> string \<Rightarrow> (string \<rightharpoonup> 'c engine_analysis) \<times> summary
     \<Rightarrow> (string \<rightharpoonup> 'c engine_analysis) \<times> summary" where
  "analyze_ticker cfg tk st =
     (case try_ticker cfg tk of
        NoData \<Rightarrow> (fst st, (snd st)\<lparr>errors := errors (snd st) @ [(tk, ''No data found'')]\<rparr>)
      | Thrown msg \<Rightarrow> (fst st, (snd st)\<lparr>errors := errors (snd st) @ [(tk, msg)]\<rparr>)
      | Analysed a \<Rightarrow> ((fst st)(tk \<mapsto> a), update_summary (severity (dislocation a)) (snd st)))"

fun run_tickers ::
  "'c config \<Rightarrow> string list \<Rightarrow> (string \<rightharpoonup> 'c engine_analysis) \<times> summary
     \<Rightarrow> (string \<rightharpoonup> 'c engine_analysis) \<times> summary" where
  "run_tickers cfg [] st = st"
| "run_tickers cfg (tk # tks) st = run_tickers cfg tks (analyze_ticker cfg tk st)"

definition runner_initial_summary :: "string list \<Rightarrow> summary" where
  "runner_initial_summary TICKERS =
     \<lparr>tickersAnalyzed = length TICKERS, criticalDislocations = 0, highDislocations = 0,
      normal = 0, moderateDislocations = 0, errors = []\<rparr>"


section \<open>Sample inputs\<close>

text \<open>
  The entry of XRO in the table of the script that uses real prices, with a live price
  whose previous close equals the price.
\<close>

definition XRO :: stock_entry where
  "XRO = \<lparr>price = 7349 / 100, previousPrice = Some (7349 / 100), priceHistory = []\<rparr>"

text \<open>A turn of the simulated loop in which every call of \<^verbatim>\<open>Math.random()\<close> returns 0.\<close>

definition zero_draws :: draws where
  "zero_draws =
     \<lparr>r_current = 0, r_previous = 0, r_zScore = 0, r_volumeRatio = 0,
      r_T1 = 0, r_T2 = 0, r_T3 = 0, r_T4 = 0\<rparr>"

text \<open>
  A turn of the simulated loop whose second draw, the one for the previous price, is 0.01
  and whose other draws are 0.
\<close>

definition rising_draws :: draws where
  "rising_draws = zero_draws\<lparr>r_previous := 1 / 100\<rparr>"

text \<open>The value of \<^verbatim>\<open>change\<close> in a turn of the simulated loop, read as a number.\<close>

definition sim_change :: "draws \<Rightarrow> jsnum" where
  "sim_change r =
     (let currentPrice = 100 + r_current r * 200;
          previousPrice = currentPrice * (1 + (r_previous r - 1 / 2) * (1 / 10))
      in toFixed 2 (js_pct (currentPrice - previousPrice) previousPrice))"

text \<open>A turn of the simulated loop that differs from \<open>zero_draws\<close> in the draw for T2 only.\<close>

definition other_draws :: draws where
  "other_draws = zero_draws\<lparr>r_T2 := 1 / 2\<rparr>"

text \<open>The entry of PME in the table of the script that uses real prices, without a live price.\<close>

definition PME :: stock_entry where
  "PME =
     \<lparr>price = 11822 / 100, previousPrice = None,
      priceHistory = map (\<lambda>i. 280 - real i * (3 / 2)) [0..<100]\<rparr>"

text \<open>
  Engines for the examples: the analysis is the classification of the script that uses
  real prices on the three prices of the price data, and throws for the ticker BAD; the
  report is empty.
\<close>

definition sample_engines :: "unit engines" where
  "sample_engines =
     \<lparr>analyze = (\<lambda>tk sd pd.
        if tk = ''BAD'' then Inl ''engine failure''
        else
          (let a = fst (classify tk (pd_currentPrice pd) (pd_previousPrice pd)
                     (pd_peakPrice pd) initial_summary)
           in Inr \<lparr>ticker = ticker a, dislocation = dislocation a, weights = weights a,
                   inference = inference a, shouldUpdate = False,
                   institutionalCommentary = None\<rparr>)),
      generateReport = (\<lambda>tk sd pd w d i. Inr ())\<rparr>"

text \<open>
  A configuration for the examples: XRO has a price and a live price that fell from
  73.49 to 67, BAD and DRO have an entry without price and history, and no other ticker
  has an entry.
\<close>

definition sample_config :: "unit config" where
  "sample_config =
     \<lparr>STOCK_DATA =
        [''XRO'' \<mapsto> \<lparr>sd_price = Some (7349 / 100), sd_priceHistory = Some []\<rparr>,
         ''BAD'' \<mapsto> \<lparr>sd_price = None, sd_priceHistory = None\<rparr>,
         ''DRO'' \<mapsto> \<lparr>sd_price = None, sd_priceHistory = None\<rparr>],
      livePrices =
        [''XRO'' \<mapsto> \<lparr>live_p = Some 67, live_pc = Some (7349 / 100), live_v = None\<rparr>],
      THRESHOLD = ''MODERATE'',
      engines = sample_engines\<rparr>"

definition sample_tickers :: "string list" where
  "sample_tickers = [''XRO'', ''ZZZ'', ''BAD'', ''DRO'']"

text \<open>
  The entry that a ticker adds to \<^verbatim>\<open>summary.errors\<close>, if it adds one: its turn of the
  loop ends without data or in the \<^verbatim>\<open>catch\<close> block.
\<close>

definition failure :: "'c config \<Rightarrow> string \<Rightarrow> (string \<times> string) option" where
  "failure cfg tk =
     (case try_ticker cfg tk of
        NoData \<Rightarrow> Some (tk, ''No data found'')
      | Thrown msg \<Rightarrow> Some (tk, msg)
      | Analysed a \<Rightarrow> None)"


section \<open>Properties stated of a result\<close>


section \<open>Properties of the script that uses real prices\<close>

lemma detect_severity:
  "fst (detect c d s) =
     (if js_gt (js_abs c) 8 \<or> js_lt d (- 40) then CRITICAL
      else if js_gt (js_abs c) 5 \<or> js_lt d (- 25) then HIGH else NORMAL)"
  by (simp add: detect_def)

lemma classify_fields:
  "severity (dislocation (fst (classify tk cp pp peak s))) =
     fst (detect (change_pct cp pp) (drawdown_pct cp peak) s)"
  "todayReturn (metrics (dislocation (fst (classify tk cp pp peak s)))) = change_pct cp pp"
  "drawdownFromPeak (metrics (dislocation (fst (classify tk cp pp peak s)))) =
     drawdown_pct cp peak"
  by (simp_all add: classify_def Let_def split: prod.split)


lemma change_95_100: "change_pct 95 100 = Fin (- 5)"
  by (simp add: change_pct_def js_pct_def js_div_def toFixed_num_def)


lemma drawdown_95_100: "drawdown_pct 95 100 = Fin (- 5)"
  by (simp add: drawdown_pct_def js_pct_def js_div_def toFixed_num_def)





text \<open>
  C5. The inference of a result is a function of its severity alone: T2, T3, T4 and
  0.85 when the severity is CRITICAL; T1, no secondary and no contradicted hypothesis,
  and 0.6 otherwise.
\<close>

theorem inference_from_severity:
  "let r = fst (classify tk cp pp peak s)
   in inference r =
        (if severity (dislocation r) = CRITICAL
         then \<lparr>primaryHypothesis = T2, secondaryHypothesis = Some T3,
               contradictedHypothesis = Some T4, inferenceConfidence = 85 / 100\<rparr>
         else \<lparr>primaryHypothesis = T1, secondaryHypothesis = None,
               contradictedHypothesis = None, inferenceConfidence = 6 / 10\<rparr>)"
  by (simp add: classify_def Let_def split: prod.split)

theorem inference_from_severity_witness:
  "inference (fst (classify ''PME'' 95 100 100 initial_summary)) =
     \<lparr>primaryHypothesis = T1, secondaryHypothesis = None,
      contradictedHypothesis = None, inferenceConfidence = 6 / 10\<rparr>"
  using inference_from_severity [of "''PME''" 95 100 100 initial_summary]
  unfolding Let_def classify_fields detect_severity change_95_100 drawdown_95_100
  by simp


lemma fold_max_ge: "x \<le> fold max xs (x::real)"
proof (induction xs arbitrary: x)
  case Nil
  show ?case by simp
next
  case (Cons a xs)
  have "x \<le> max a x" by simp
  also have "\<dots> \<le> fold max xs (max a x)" by (rule Cons.IH)
  finally show ?case by simp
qed

lemma math_max_ge: "x \<le> math_max xs x"
  by (simp add: math_max_def fold_max_ge)










section \<open>Properties of the weights\<close>


lemma simulate_weights:
  "sim_weights (fst (simulate tk r s)) =
     simulated_weights r (sim_severity (sim_dislocation (fst (simulate tk r s))))"
  by (simp add: simulate_def Let_def split: prod.split)




section \<open>Properties of the pattern\<close>

lemma classify_pattern:
  "pattern (dislocation (fst (classify tk cp pp peak s))) =
     (if severity (dislocation (fst (classify tk cp pp peak s))) = CRITICAL
      then DISTRIBUTION else PATTERN_NORMAL)"
  by (simp add: classify_def Let_def split: prod.split)

lemma sim_detect_severity:
  "fst (sim_detect c s) =
     (if js_gt (js_abs c) 8 then CRITICAL else if js_gt (js_abs c) 5 then HIGH else NORMAL)"
  by (simp add: sim_detect_def)

lemma simulate_fields:
  "sim_todayReturn (sim_metrics (sim_dislocation (fst (simulate tk r s)))) = sim_change r"
  "sim_severity (sim_dislocation (fst (simulate tk r s))) = fst (sim_detect (sim_change r) s)"
  "sim_pattern (sim_dislocation (fst (simulate tk r s))) =
     (if js_gt (js_abs (sim_change r)) 5 then GAP_DOWN else PATTERN_NORMAL)"
  by (simp_all add: simulate_def sim_change_def Let_def split: prod.split)

lemma js_gt_mono: "js_gt x a \<Longrightarrow> b \<le> a \<Longrightarrow> js_gt x b"
  by (cases x) auto

lemma sim_change_rising: "sim_change rising_draws = Fin (515 / 100)"
  by (simp add: sim_change_def rising_draws_def zero_draws_def Let_def js_pct_def js_div_def
      toFixed_num_def)

text \<open>
  C6. In the script that uses real prices the pattern is DISTRIBUTION exactly when the
  severity is CRITICAL and NORMAL in every other case; GAP_DOWN is never assigned. In the
  script that simulates prices the pattern is GAP_DOWN exactly when the absolute return
  exceeds 5, whatever its sign, that is exactly when the severity is not NORMAL, and
  NORMAL otherwise; DISTRIBUTION is never assigned.
\<close>

theorem pattern_of_result:
  "(let r = fst (classify tk cp pp peak s)
    in (pattern (dislocation r) = DISTRIBUTION \<longleftrightarrow> severity (dislocation r) = CRITICAL) \<and>
       (pattern (dislocation r) = PATTERN_NORMAL \<longleftrightarrow> severity (dislocation r) \<noteq> CRITICAL) \<and>
       pattern (dislocation r) \<noteq> GAP_DOWN) \<and>
   (let d = sim_dislocation (fst (simulate tk rnd s))
    in (sim_pattern d = GAP_DOWN \<longleftrightarrow> js_gt (js_abs (sim_todayReturn (sim_metrics d))) 5) \<and>
       (sim_pattern d = GAP_DOWN \<longleftrightarrow> sim_severity d \<noteq> NORMAL) \<and>
       (sim_pattern d = PATTERN_NORMAL \<longleftrightarrow> sim_severity d = NORMAL) \<and>
       sim_pattern d \<noteq> DISTRIBUTION)"
  unfolding Let_def classify_pattern simulate_fields sim_detect_severity
  using js_gt_mono [of "js_abs (sim_change rnd)" 8 5] by auto

theorem pattern_of_result_witness:
  "pattern (dislocation (fst (classify ''PME'' 95 100 100 initial_summary))) = PATTERN_NORMAL \<and>
   sim_pattern (sim_dislocation (fst (simulate ''PME'' rising_draws initial_summary))) = GAP_DOWN"
  using pattern_of_result [where tk = "''PME''" and cp = 95 and pp = 100 and peak = 100
      and s = initial_summary and rnd = rising_draws]
  unfolding Let_def classify_fields detect_severity change_95_100 drawdown_95_100
    simulate_fields sim_detect_severity sim_change_rising
  by simp

theorem gap_down_on_rise:
  "valid_draws rising_draws \<and>
   sim_pattern (sim_dislocation (fst (simulate ''PME'' rising_draws initial_summary))) =
     GAP_DOWN \<and>
   sim_severity (sim_dislocation (fst (simulate ''PME'' rising_draws initial_summary))) =
     HIGH \<and>
   sim_todayReturn (sim_metrics (sim_dislocation
      (fst (simulate ''PME'' rising_draws initial_summary)))) = Fin (515 / 100) \<and>
   \<not> js_lt (sim_todayReturn (sim_metrics (sim_dislocation
      (fst (simulate ''PME'' rising_draws initial_summary))))) 0"
  unfolding simulate_fields sim_detect_severity sim_change_rising
  by (simp add: valid_draws_def rising_draws_def zero_draws_def)

section \<open>Determinism\<close>

lemma analyze_entry_result_indep: "fst (analyze_entry e s) = fst (analyze_entry e s')"
  by (simp add: analyze_entry_def classify_def detect_def Let_def split: prod.split)

lemma run_real_Cons:
  "run_real (e # es) st =
     run_real es
       ((fst st)(fst e \<mapsto> fst (analyze_entry e (snd st))), snd (analyze_entry e (snd st)))"
  by (simp add: case_prod_beta)

lemma run_real_other: "tk \<notin> fst ` set es \<Longrightarrow> fst (run_real es st) tk = fst st tk"
  by (induction es arbitrary: st) (auto simp add: run_real_Cons simp del: run_real.simps(2))

lemma run_real_result:
  "distinct (map fst es) \<Longrightarrow> (tk, d) \<in> set es \<Longrightarrow>
   fst (run_real es st) tk = Some (fst (analyze_entry (tk, d) s'))"
proof (induction es arbitrary: st)
  case Nil
  then show ?case by simp
next
  case (Cons e es)
  show ?case
  proof (cases "e = (tk, d)")
    case True
    with Cons.prems have "tk \<notin> fst ` set es" by auto
    then show ?thesis
      using True analyze_entry_result_indep [of "(tk, d)" "snd st" s']
      by (simp add: run_real_other run_real_Cons del: run_real.simps(2))
  next
    case False
    with Cons.prems have "(tk, d) \<in> set es" "distinct (map fst es)" by auto
    then show ?thesis
      using Cons.IH by (simp add: run_real_Cons del: run_real.simps(2))
  qed
qed

lemma simulate_inference:
  "sim_inference (fst (simulate tk r s)) =
     \<lparr>sim_primaryHypothesis =
        (if sim_severity (sim_dislocation (fst (simulate tk r s))) = CRITICAL then T2 else T1),
      sim_confidence = 3 / 4\<rparr>"
  by (simp add: simulate_def Let_def split: prod.split)

text \<open>
  C7. The result that the script that uses real prices computes for an entry does not
  depend on the summary accumulated so far, and the result stored for a ticker at the
  end of the loop is the one computed from that ticker's entry alone, whatever the other
  entries and the state the loop started in. In the script that simulates prices the
  return, the severity, the pattern and the inference depend on the two draws that make
  the prices and on nothing else.
\<close>

theorem real_prices_deterministic:
  "fst (analyze_entry e s) = fst (analyze_entry e s') \<and>
   (distinct (map fst es) \<and> (tk, d) \<in> set es \<longrightarrow>
      fst (run_real es st) tk = Some (fst (analyze_entry (tk, d) s'))) \<and>
   (r_current r = r_current r' \<and> r_previous r = r_previous r' \<longrightarrow>
      (let a = fst (simulate tk r s); b = fst (simulate tk r' s')
       in sim_todayReturn (sim_metrics (sim_dislocation a)) =
            sim_todayReturn (sim_metrics (sim_dislocation b)) \<and>
          sim_severity (sim_dislocation a) = sim_severity (sim_dislocation b) \<and>
          sim_pattern (sim_dislocation a) = sim_pattern (sim_dislocation b) \<and>
          sim_inference a = sim_inference b))"
proof (intro conjI impI)
  show "fst (analyze_entry e s) = fst (analyze_entry e s')"
    by (rule analyze_entry_result_indep)
next
  assume "distinct (map fst es) \<and> (tk, d) \<in> set es"
  then show "fst (run_real es st) tk = Some (fst (analyze_entry (tk, d) s'))"
    using run_real_result by blast
next
  assume "r_current r = r_current r' \<and> r_previous r = r_previous r'"
  then have c: "sim_change r = sim_change r'"
    by (simp add: sim_change_def)
  show "let a = fst (simulate tk r s); b = fst (simulate tk r' s')
       in sim_todayReturn (sim_metrics (sim_dislocation a)) =
            sim_todayReturn (sim_metrics (sim_dislocation b)) \<and>
          sim_severity (sim_dislocation a) = sim_severity (sim_dislocation b) \<and>
          sim_pattern (sim_dislocation a) = sim_pattern (sim_dislocation b) \<and>
          sim_inference a = sim_inference b"
    unfolding Let_def simulate_inference simulate_fields sim_detect_severity c by simp
qed

theorem real_prices_deterministic_witness:
  "distinct (map fst [(''PME'', PME), (''XRO'', XRO)]) \<and>
   (''XRO'', XRO) \<in> set [(''PME'', PME), (''XRO'', XRO)] \<and>
   fst (run_real [(''PME'', PME), (''XRO'', XRO)] (Map.empty, initial_summary)) ''XRO'' =
     Some (fst (analyze_entry (''XRO'', XRO) initial_summary)) \<and>
   r_current zero_draws = r_current other_draws \<and>
   r_previous zero_draws = r_previous other_draws \<and>
   sim_severity (sim_dislocation (fst (simulate ''XRO'' zero_draws initial_summary))) =
     sim_severity (sim_dislocation (fst (simulate ''XRO'' other_draws initial_summary)))"
proof -
  have d: "distinct (map fst [(''PME'', PME), (''XRO'', XRO)]) \<and>
      (''XRO'', XRO) \<in> set [(''PME'', PME), (''XRO'', XRO)]"
    by simp
  have r: "r_current zero_draws = r_current other_draws \<and>
      r_previous zero_draws = r_previous other_draws"
    by (simp add: other_draws_def)
  note t = real_prices_deterministic [where es = "[(''PME'', PME), (''XRO'', XRO)]"
      and tk = "''XRO''" and d = XRO and st = "(Map.empty, initial_summary)"
      and s' = initial_summary and s = initial_summary and r = zero_draws
      and r' = other_draws and e = "(''XRO'', XRO)", unfolded Let_def]
  from t d r show ?thesis by blast
qed

theorem simulated_depends_on_draws:
  "valid_draws zero_draws \<and> valid_draws other_draws \<and>
   r_current zero_draws = r_current other_draws \<and>
   r_previous zero_draws = r_previous other_draws \<and>
   fst (simulate ''PME'' zero_draws initial_summary) \<noteq>
     fst (simulate ''PME'' other_draws initial_summary)"
proof -
  have "shortTerm (sim_weights (fst (simulate ''PME'' zero_draws initial_summary)) T2) \<noteq>
      shortTerm (sim_weights (fst (simulate ''PME'' other_draws initial_summary)) T2)"
    unfolding simulate_weights by (simp add: zero_draws_def other_draws_def)
  then have "fst (simulate ''PME'' zero_draws initial_summary) \<noteq>
      fst (simulate ''PME'' other_draws initial_summary)"
    by auto
  then show ?thesis
    by (simp add: valid_draws_def zero_draws_def other_draws_def)
qed

section \<open>Properties of the loop of the full runner\<close>

lemma update_summary_errors: "errors (update_summary sev s) = errors s"
  by (cases sev) simp_all


lemma analyze_ticker_errors:
  "errors (snd (analyze_ticker cfg tk st)) =
     errors (snd st) @ (case failure cfg tk of None \<Rightarrow> [] | Some e \<Rightarrow> [e])"
  by (simp add: analyze_ticker_def failure_def update_summary_errors split: outcome.split)

lemma analyze_ticker_results:
  "fst (analyze_ticker cfg tk st) =
     (case try_ticker cfg tk of Analysed a \<Rightarrow> (fst st)(tk \<mapsto> a) | _ \<Rightarrow> fst st)"
  by (simp add: analyze_ticker_def split: outcome.split)


lemma run_tickers_errors:
  "errors (snd (run_tickers cfg tks st)) = errors (snd st) @ List.map_filter (failure cfg) tks"
  by (induction tks arbitrary: st)
     (simp_all add: analyze_ticker_errors List.map_filter_simps split: option.split)

lemma run_tickers_kept: "tk \<notin> set tks \<Longrightarrow> fst (run_tickers cfg tks st) tk = fst st tk"
  by (induction tks arbitrary: st) (auto simp add: analyze_ticker_results split: outcome.split)

lemma run_tickers_dom: "dom (fst st) \<subseteq> dom (fst (run_tickers cfg tks st))"
proof (induction tks arbitrary: st)
  case Nil
  show ?case by simp
next
  case (Cons t tks)
  have "dom (fst st) \<subseteq> dom (fst (analyze_ticker cfg t st))"
    by (auto simp add: analyze_ticker_results split: outcome.split)
  also have "\<dots> \<subseteq> dom (fst (run_tickers cfg tks (analyze_ticker cfg t st)))"
    by (rule Cons.IH)
  finally show ?case by simp
qed

lemma run_tickers_stored:
  "tk \<in> set tks \<Longrightarrow> try_ticker cfg tk = Analysed a \<Longrightarrow>
   fst (run_tickers cfg tks st) tk = Some a"
proof (induction tks arbitrary: st)
  case Nil
  then show ?case by simp
next
  case (Cons t tks)
  show ?case
  proof (cases "tk \<in> set tks")
    case True
    then show ?thesis using Cons by simp
  next
    case False
    with Cons.prems have "t = tk" by simp
    then show ?thesis using False Cons.prems(2)
      by (simp add: run_tickers_kept analyze_ticker_results)
  qed
qed

lemma try_ZZZ: "try_ticker sample_config ''ZZZ'' = NoData"
  by (simp add: try_ticker_def sample_config_def)

lemma try_BAD: "try_ticker sample_config ''BAD'' = Thrown ''engine failure''"
  by (simp add: try_ticker_def sample_config_def sample_engines_def)

text \<open>
  C9. A turn of the loop for a ticker without data, or one in which an engine throws,
  leaves the results as they are and appends the ticker with its message to the errors
  of the summary. The loop goes through all tickers: the errors at its end are those at
  its start followed by the entries of the failing tickers in order, every result
  present at the start or stored on the way is still present at the end, and the
  analysis of every ticker that does not fail is stored.
\<close>

theorem failures_recorded:
  "(try_ticker cfg tk = NoData \<longrightarrow>
      analyze_ticker cfg tk st =
        (fst st, (snd st)\<lparr>errors := errors (snd st) @ [(tk, ''No data found'')]\<rparr>)) \<and>
   (try_ticker cfg tk = Thrown msg \<longrightarrow>
      analyze_ticker cfg tk st =
        (fst st, (snd st)\<lparr>errors := errors (snd st) @ [(tk, msg)]\<rparr>)) \<and>
   errors (snd (run_tickers cfg tks st)) =
     errors (snd st) @ List.map_filter (failure cfg) tks \<and>
   dom (fst st) \<subseteq> dom (fst (run_tickers cfg tks st)) \<and>
   (\<forall>t a. t \<notin> set tks \<and> fst st t = Some a \<longrightarrow> fst (run_tickers cfg tks st) t = Some a) \<and>
   (\<forall>t a. t \<in> set tks \<and> try_ticker cfg t = Analysed a \<longrightarrow>
      fst (run_tickers cfg tks st) t = Some a)"
  by (simp add: analyze_ticker_def run_tickers_errors run_tickers_dom run_tickers_kept
      run_tickers_stored)

lemma change_XRO: "change_pct 67 (7349 / 100) = Fin (- 883 / 100)"
  by (simp add: change_pct_def js_pct_def js_div_def toFixed_num_def)

lemma pd_XRO:
  "pd_currentPrice (buildPriceData (livePrices sample_config) ''XRO''
      \<lparr>sd_price = Some (7349 / 100), sd_priceHistory = Some []\<rparr>) = 67"
  "pd_previousPrice (buildPriceData (livePrices sample_config) ''XRO''
      \<lparr>sd_price = Some (7349 / 100), sd_priceHistory = Some []\<rparr>) = 7349 / 100"
  "pd_peakPrice (buildPriceData (livePrices sample_config) ''XRO''
      \<lparr>sd_price = Some (7349 / 100), sd_priceHistory = Some []\<rparr>) = 67"
  by (simp_all add: buildPriceData_def sample_config_def opt_field_def from_end_def
      math_max_def Let_def)

lemma try_XRO:
  "\<exists>a. try_ticker sample_config ''XRO'' = Analysed a \<and> severity (dislocation a) = CRITICAL"
proof -
  have s: "severity (dislocation
      (fst (classify ''XRO'' 67 (7349 / 100) 67 initial_summary))) = CRITICAL"
    unfolding classify_fields detect_severity change_XRO by simp
  have l: "SEVERITY_LEVELS ''CRITICAL'' = Some 3"
    by (simp add: SEVERITY_LEVELS_def)
  have t: "thresholdLevel ''MODERATE'' = 1"
    by (simp add: thresholdLevel_def SEVERITY_LEVELS_def)
  have sd: "STOCK_DATA sample_config ''XRO'' =
      Some \<lparr>sd_price = Some (7349 / 100), sd_priceHistory = Some []\<rparr>"
    by (simp add: sample_config_def)
  have e: "engines sample_config = sample_engines" "THRESHOLD sample_config = ''MODERATE''"
    by (simp_all add: sample_config_def)
  show ?thesis
    unfolding try_ticker_def sd e by (simp add: Let_def pd_XRO sample_engines_def s l t)
qed

theorem failures_recorded_witness:
  "try_ticker sample_config ''ZZZ'' = NoData \<and>
   try_ticker sample_config ''BAD'' = Thrown ''engine failure'' \<and>
   ''XRO'' \<in> set sample_tickers \<and>
   ''XRO'' \<in> dom (fst (run_tickers sample_config sample_tickers
      (Map.empty, runner_initial_summary sample_tickers))) \<and>
   analyze_ticker sample_config ''BAD'' (Map.empty, runner_initial_summary sample_tickers) =
     (Map.empty,
      (runner_initial_summary sample_tickers)\<lparr>errors := [(''BAD'', ''engine failure'')]\<rparr>)"
proof -
  let ?st = "(Map.empty :: string \<rightharpoonup> unit engine_analysis,
    runner_initial_summary sample_tickers)"
  note t = failures_recorded [where cfg = sample_config and tk = "''BAD''"
      and msg = "''engine failure''" and tks = sample_tickers and st = ?st]
  obtain a where a: "try_ticker sample_config ''XRO'' = Analysed a"
    using try_XRO by blast
  have m: "''XRO'' \<in> set sample_tickers"
    by (simp add: sample_tickers_def)
  from t a m have "fst (run_tickers sample_config sample_tickers ?st) ''XRO'' = Some a"
    by blast
  then have d: "''XRO'' \<in> dom (fst (run_tickers sample_config sample_tickers ?st))"
    by blast
  from t try_BAD have "analyze_ticker sample_config ''BAD'' ?st =
      (fst ?st, (snd ?st)\<lparr>errors := errors (snd ?st) @ [(''BAD'', ''engine failure'')]\<rparr>)"
    by blast
  then have b: "analyze_ticker sample_config ''BAD'' ?st =
      (Map.empty,
       (runner_initial_summary sample_tickers)\<lparr>errors := [(''BAD'', ''engine failure'')]\<rparr>)"
    by (simp add: runner_initial_summary_def)
  from try_ZZZ try_BAD m d b show ?thesis by blast
qed

section \<open>The exit code\<close>













section \<open>Missing data\<close>















end
